theory Spec2Isabelle
  imports Main
begin

section \<open>fClient: the client constructor and the request dispatcher\<close>

text \<open>
  A shallow embedding of \<^verbatim>\<open>src/client.ts\<close> (the constructor of \<^verbatim>\<open>Client\<close> and
  \<^verbatim>\<open>Client.request\<close>), of the enums of \<^verbatim>\<open>src/types.ts\<close> it uses, and of the two error
  classes of \<^verbatim>\<open>src/errors.ts\<close>.

  JavaScript strings are \<open>string\<close>, numbers that hold integers are \<open>int\<close>, an optional
  property is an \<open>option\<close> (\<open>None\<close> is \<^verbatim>\<open>undefined\<close>), a plain object used as a dictionary
  is a map. A rejected promise or a \<^verbatim>\<open>throw\<close> is the \<open>Inl\<close> side of a sum.
\<close>

subsection \<open>JavaScript values the code tests for truthiness\<close>

text \<open>
  \<^verbatim>\<open>if (x)\<close> and \<^verbatim>\<open>x || d\<close> on an optional string: \<^verbatim>\<open>undefined\<close> and the empty string are
  falsy, every other string is truthy. On an optional number: \<^verbatim>\<open>undefined\<close> and \<open>0\<close> are
  falsy. On an optional boolean: \<^verbatim>\<open>undefined\<close> and \<^verbatim>\<open>false\<close> are falsy.
\<close>

definition truthy_string :: "string option \<Rightarrow> bool" where
  "truthy_string v = (case v of None \<Rightarrow> False | Some s \<Rightarrow> s \<noteq> [])"

definition truthy_number :: "int option \<Rightarrow> bool" where
  "truthy_number v = (case v of None \<Rightarrow> False | Some n \<Rightarrow> n \<noteq> 0)"

definition truthy_bool :: "bool option \<Rightarrow> bool" where
  "truthy_bool v = (case v of None \<Rightarrow> False | Some b \<Rightarrow> b)"

text \<open>\<^verbatim>\<open>s.startsWith(p)\<close>: the first \<open>length p\<close> characters of \<open>s\<close> are \<open>p\<close>.\<close>

definition startsWith :: "string \<Rightarrow> string \<Rightarrow> bool" where
  "startsWith s p = (take (length p) s = p)"

subsection \<open>Enums of \<^verbatim>\<open>types.ts\<close>\<close>

datatype HttpMethods = GET | POST

datatype ReturnMethods = JSON | BODY

text \<open>\<^verbatim>\<open>ReturnHeaders\<close>: the header names the client handles itself.\<close>

definition RATELIMIT_RESET :: string where
  "RATELIMIT_RESET = ''x-rate-limit-reset''"

definition RATELIMIT_LIMIT :: string where
  "RATELIMIT_LIMIT = ''x-rate-limit-limit''"

definition RATELIMIT_REMAINING :: string where
  "RATELIMIT_REMAINING = ''x-rate-limit-remaining''"

definition CONTENT_TYPE :: string where
  "CONTENT_TYPE = ''content-type''"

text \<open>\<^verbatim>\<open>RequestEvents.Events = 'ratelimit' | 'request' | 'response'\<close>.\<close>

datatype Events = Ratelimit | Request | Response

subsection \<open>The constructor\<close>

text \<open>
  \<^verbatim>\<open>ClientOptions\<close>, all three properties optional. \<^verbatim>\<open>RequestSettings\<close> is the transport's
  settings object, of which the client touches \<^verbatim>\<open>timeout\<close> only.
\<close>

record ClientOptions =
  opt_baseUrl :: "string option"
  opt_auth :: "string option"
  opt_timeout :: "int option"

record RequestSettings =
  timeout :: "int option"

text \<open>
  \<^verbatim>\<open>const defaultSettings: RequestSettings = { timeout: 15000 }\<close> is one object of the
  module, created when the module is loaded. The constructor binds \<^verbatim>\<open>settings\<close> to that
  very object (\<^verbatim>\<open>const settings = defaultSettings\<close>), so its assignment
  \<^verbatim>\<open>settings.timeout = options.timeout\<close> writes into the module's object. The module's
  object is therefore state: \<open>Client_new\<close> takes its current content and returns the
  content after the call.
\<close>

definition defaultSettings_initial :: RequestSettings where
  "defaultSettings_initial = \<lparr> timeout = Some 15000 \<rparr>"

text \<open>
  The first branch of the constructor, computing \<^verbatim>\<open>this.auth\<close>:
  \<^verbatim>\<open>
  if (options.auth && !options.auth.startsWith('Bearer')) this.auth = `Bearer ${options.auth}`;
  else if (options.auth && options.auth.startsWith('Bearer')) this.auth = options.auth;
  else this.auth = '';
  \<close>
\<close>

definition make_auth :: "string option \<Rightarrow> string" where
  "make_auth a =
     (if truthy_string a \<and> \<not> startsWith (the a) ''Bearer'' then ''Bearer '' @ the a
      else if truthy_string a \<and> startsWith (the a) ''Bearer'' then the a
      else '''')"

text \<open>
  The transport client made by \<^verbatim>\<open>new RestClient({headers, settings, baseUrl})\<close>: the headers
  it sends with every request, the settings and the base address it was handed. The
  transport is taken to keep the settings as they are at the moment of the call.
\<close>

record RestClient =
  rest_Authorization :: string
  rest_settings :: RequestSettings
  rest_baseUrl :: string

subsection \<open>JavaScript numbers\<close>

text \<open>
  The numbers \<^verbatim>\<open>parseInt\<close> can give: \<^verbatim>\<open>NaN\<close>, the two infinities, the negative zero, and a
  double whose value is an integer. A double has 53 significant bits: \<open>round_to_double\<close>
  is the rounding of a natural number to the nearest double, ties to the even
  significand, and \<open>None\<close> where the result is beyond the largest double, which is then
  an infinity.
\<close>

datatype number = NaN | PosInfinity | NegInfinity | NegZero | Integer int

definition isNaN :: "number \<Rightarrow> bool" where
  "isNaN x = (x = NaN)"

fun bits :: "nat \<Rightarrow> nat" where
  "bits n = (if n = 0 then 0 else Suc (bits (n div 2)))"

declare bits.simps [simp del]

definition round_to_double :: "nat \<Rightarrow> nat option" where
  "round_to_double n =
     (if n < 2 ^ 53 then Some n
      else
        (let e = bits n - 53;
             q = n div 2 ^ e;
             r = n mod 2 ^ e;
             half = 2 ^ (e - 1);
             q1 = (if half < r \<or> (r = half \<and> odd q) then q + 1 else q);
             m = q1 * 2 ^ e
         in if 2 ^ 1024 \<le> m then None else Some m))"

subsection \<open>The transport's response and the values a call returns\<close>

text \<open>
  What \<^verbatim>\<open>JSON.parse\<close> produces. No parser is modelled: the transport (\<^verbatim>\<open>detritus-rest\<close>, an
  external library) decodes, and a response carries what its two reading methods give.
\<close>

datatype json =
    JNull
  | JBool bool
  | JNumber int
  | JString string
  | JArray "json list"
  | JObject "(string \<times> json) list"

text \<open>An exception that is none of the client's two error classes, named by its message.\<close>

datatype exn = Exn string

text \<open>
  What \<^verbatim>\<open>await res.body()\<close> can resolve to (its type is \<^verbatim>\<open>any\<close>): a string, \<^verbatim>\<open>null\<close>, or another
  value (a \<^verbatim>\<open>Buffer\<close>, parsed JSON), which is kept as the string its conversion to a string
  gives. \<open>ToString_body\<close> is that conversion, which the \<^verbatim>\<open>Error\<close> constructor applies to the
  message it is given.
\<close>

datatype jsbody = Text string | Null | Object string

fun ToString_body :: "jsbody \<Rightarrow> string" where
  "ToString_body (Text s) = s"
| "ToString_body Null = ''null''"
| "ToString_body (Object s) = s"

text \<open>
  \<^verbatim>\<open>FapiResponse\<close> as \<^verbatim>\<open>request\<close> reads it: \<^verbatim>\<open>res.statusCode\<close>, \<^verbatim>\<open>res.headers\<close> (indexed by header
  name, \<open>None\<close> where the header is absent), what \<^verbatim>\<open>await res.body()\<close> settles with, what
  \<^verbatim>\<open>await res.json()\<close> settles with (\<open>Inl\<close> when they reject; for \<^verbatim>\<open>json()\<close>: the body is not
  valid JSON), and \<^verbatim>\<open>res.request\<close>, the transport's own request object, of which only the
  identity matters.
\<close>

record FapiResponse =
  statusCode :: int
  res_headers :: "string \<rightharpoonup> string"
  res_body :: "exn + jsbody"
  res_json :: "exn + json"
  res_request :: string

text \<open>
  The \<^verbatim>\<open>any\<close> that \<^verbatim>\<open>request\<close> resolves to: \<^verbatim>\<open>undefined\<close>, a body, parsed JSON, the response
  itself (the \<^verbatim>\<open>default\<close> branch of the switch), or the object \<^verbatim>\<open>{ body, headers }\<close>.
\<close>

datatype jsval =
    Undefined
  | Body jsbody
  | Json json
  | Res FapiResponse
  | BodyHeaders jsval "string \<rightharpoonup> string"

subsection \<open>The error classes of \<^verbatim>\<open>errors.ts\<close>\<close>

text \<open>
  \<^verbatim>\<open>FapiError(message, statusCode, request)\<close>, and \<^verbatim>\<open>RatelimitError\<close>, which extends it with
  \<^verbatim>\<open>ratelimitReset\<close> and fixes the message to \<^verbatim>\<open>STATUS_CODES[429]\<close> of Node's \<^verbatim>\<open>http\<close> module and
  the status code to 429. \<open>Thrown\<close> is any other exception the call rejects with.
\<close>

datatype error =
    FapiError string int string
  | RatelimitError string int string number
  | Thrown exn

definition ratelimitStatusCode :: int where
  "ratelimitStatusCode = 429"

definition STATUS_CODES_429 :: string where
  "STATUS_CODES_429 = ''Too Many Requests''"

definition new_RatelimitError :: "number \<Rightarrow> string \<Rightarrow> error" where
  "new_RatelimitError ratelimitReset req =
     RatelimitError STATUS_CODES_429 ratelimitStatusCode req ratelimitReset"

subsection \<open>The request descriptor and the events\<close>

text \<open>
  \<^verbatim>\<open>RequestTypes.Request\<close>: the transport's \<^verbatim>\<open>BeforeRequestOptions\<close> (of which \<^verbatim>\<open>method\<close>,
  \<^verbatim>\<open>headers\<close>, \<^verbatim>\<open>body\<close> and the route's path are kept) with \<^verbatim>\<open>returnType\<close>, \<^verbatim>\<open>contentType\<close> and
  \<^verbatim>\<open>returnHeaders\<close>. Every property is optional.
\<close>

record RequestOptions =
  "method" :: "HttpMethods option"
  path :: "string option"
  headers :: "(string \<rightharpoonup> string) option"
  body :: "json option"
  returnType :: "ReturnMethods option"
  contentType :: "string option"
  returnHeaders :: "bool option"

text \<open>
  A listener is a callback. It is called with an object that refers to the live
  descriptor (\<^verbatim>\<open>request\<close>), to the live response (\<^verbatim>\<open>response\<close>), or to both and to the number
  \<^verbatim>\<open>ratelimitReset\<close>; it can write into these objects, and \<^verbatim>\<open>request\<close> reads them again after
  the call. So a listener is a function from the content of the objects it is handed to
  the exception it throws (\<open>Inl\<close>), or to the content it leaves when it returns (\<open>Inr\<close>).
  What a callback does to anything else is not modelled.
\<close>

type_synonym 'a callback = "'a \<Rightarrow> exn + 'a"

type_synonym ratelimit_event = "RequestOptions \<times> FapiResponse \<times> number"

datatype listener =
    RequestListener "RequestOptions callback"
  | RatelimitListener "ratelimit_event callback"
  | ResponseListener "FapiResponse callback"

text \<open>
  \<^verbatim>\<open>EventEmitter.emit\<close> of Node calls the listeners registered for the event one after the
  other, in the order of their registration, in the caller's own stack: the exception of a
  listener that throws leaves \<^verbatim>\<open>emit\<close>, and the listeners after it are not called. The
  result is that exception, or the content the last listener left; with it comes the
  record of the calls made: what each listener that was called was called with.
\<close>

fun emit :: "'a callback list \<Rightarrow> 'a \<Rightarrow> (exn + 'a) \<times> 'a list" where
  "emit [] p = (Inr p, [])"
| "emit (l # ls) p =
     (case l p of
        Inl e \<Rightarrow> (Inl e, [p])
      | Inr p1 \<Rightarrow> (fst (emit ls p1), p # snd (emit ls p1)))"

subsection \<open>The client\<close>

text \<open>
  \<^verbatim>\<open>RatelimitState\<close> is an object keyed by the three header names; the loop of \<^verbatim>\<open>request\<close>
  stores the header's value as it came (a string). The three lists are the listeners the
  \<^verbatim>\<open>EventEmitter\<close> the client extends holds for the three events.
\<close>

record Client =
  auth :: string
  baseUrl :: string
  ratelimitState :: "string \<rightharpoonup> string"
  restClient :: RestClient
  listeners_request :: "RequestOptions callback list"
  listeners_ratelimit :: "ratelimit_event callback list"
  listeners_response :: "FapiResponse callback list"

text \<open>
  The constructor. \<open>Api_Base\<close> is the constant \<^verbatim>\<open>Api.Base\<close> of \<^verbatim>\<open>src/endpoints.ts\<close>;
  \<open>defaultSettings\<close> is the content of the module's object before the call, and the second
  component of the result its content after.
\<close>

definition Client_new ::
    "string \<Rightarrow> ClientOptions \<Rightarrow> RequestSettings \<Rightarrow> Client \<times> RequestSettings" where
  "Client_new Api_Base options defaultSettings =
     (let this_auth = make_auth (opt_auth options);
          this_baseUrl =
            (if truthy_string (opt_baseUrl options) then the (opt_baseUrl options) else Api_Base);
          settings =
            (if truthy_number (opt_timeout options)
             then defaultSettings\<lparr> timeout := opt_timeout options \<rparr>
             else defaultSettings)
      in (\<lparr> auth = this_auth,
            baseUrl = this_baseUrl,
            ratelimitState = Map.empty,
            restClient = \<lparr> rest_Authorization = this_auth,
                           rest_settings = settings,
                           rest_baseUrl = this_baseUrl \<rparr>,
            listeners_request = [],
            listeners_ratelimit = [],
            listeners_response = [] \<rparr>,
          settings))"

text \<open>
  The getters \<^verbatim>\<open>ratelimits\<close> and \<^verbatim>\<open>timeout\<close>, and \<^verbatim>\<open>on\<close>, which adds a listener after those
  already registered for its event.
\<close>

definition ratelimits :: "Client \<Rightarrow> (string \<rightharpoonup> string)" where
  "ratelimits c = ratelimitState c"

definition get_timeout :: "Client \<Rightarrow> int option" where
  "get_timeout c = timeout (rest_settings (restClient c))"

fun on_event :: "Client \<Rightarrow> listener \<Rightarrow> Client" where
  "on_event c (RequestListener l) = c\<lparr> listeners_request := listeners_request c @ [l] \<rparr>"
| "on_event c (RatelimitListener l) = c\<lparr> listeners_ratelimit := listeners_ratelimit c @ [l] \<rparr>"
| "on_event c (ResponseListener l) = c\<lparr> listeners_response := listeners_response c @ [l] \<rparr>"

text \<open>The header every request of the client goes out with.\<close>

definition Authorization :: "Client \<Rightarrow> string" where
  "Authorization c = rest_Authorization (restClient c)"

subsection \<open>\<^verbatim>\<open>parseInt\<close>\<close>

text \<open>
  \<^verbatim>\<open>parseInt(v)\<close> of ECMAScript with no radix argument, on what \<^verbatim>\<open>res.headers[...]\<close> gives. The
  argument is converted to a string (\<^verbatim>\<open>undefined\<close> to \<^verbatim>\<open>"undefined"\<close>); leading white space is
  skipped; one sign is read; \<^verbatim>\<open>0x\<close> or \<^verbatim>\<open>0X\<close> selects radix 16, otherwise the radix is 10; the
  longest run of digits of the radix is the number, whatever follows it; no digit at all
  gives \<^verbatim>\<open>NaN\<close>. The result is the double nearest to the integer the digits denote, with the
  sign: the integer itself below \<open>2^53\<close>, an infinity beyond the largest double, and the
  negative zero for a zero with a minus sign.
\<close>

definition StrWhiteSpaceChar :: "char \<Rightarrow> bool" where
  "StrWhiteSpaceChar c = ((of_char c :: nat) \<in> {9, 10, 11, 12, 13, 32, 160})"

definition digit_of :: "char \<Rightarrow> nat option" where
  "digit_of c =
     (let n = (of_char c :: nat)
      in if 48 \<le> n \<and> n \<le> 57 then Some (n - 48)
         else if 97 \<le> n \<and> n \<le> 122 then Some (n - 87)
         else if 65 \<le> n \<and> n \<le> 90 then Some (n - 55)
         else None)"

definition radix_digit :: "nat \<Rightarrow> char \<Rightarrow> bool" where
  "radix_digit R c = (case digit_of c of None \<Rightarrow> False | Some d \<Rightarrow> d < R)"

definition ToString :: "string option \<Rightarrow> string" where
  "ToString v = (case v of None \<Rightarrow> ''undefined'' | Some s \<Rightarrow> s)"

definition parseInt :: "string option \<Rightarrow> number" where
  "parseInt v =
     (let inputString = ToString v;
          S = dropWhile StrWhiteSpaceChar inputString;
          negative = (S \<noteq> [] \<and> hd S = CHR ''-'');
          S1 = (if S \<noteq> [] \<and> (hd S = CHR ''+'' \<or> hd S = CHR ''-'') then tl S else S);
          hex = (take 2 S1 = ''0x'' \<or> take 2 S1 = ''0X'');
          R = (if hex then 16 else 10 :: nat);
          S2 = (if hex then drop 2 S1 else S1);
          Z = takeWhile (radix_digit R) S2;
          mathInt = foldl (\<lambda>a c. a * R + the (digit_of c)) 0 Z
      in if Z = [] then NaN
         else
           (case round_to_double mathInt of
              None \<Rightarrow> (if negative then NegInfinity else PosInfinity)
            | Some m \<Rightarrow>
                if m = 0 \<and> negative then NegZero
                else Integer (if negative then - int m else int m)))"

subsection \<open>\<^verbatim>\<open>Client.request\<close>\<close>

text \<open>
  The first statement:
  \<^verbatim>\<open>
  if (options.method !== HttpMethods.GET && options.headers) {
    options.headers[ReturnHeaders.CONTENT_TYPE] = options.contentType || 'application/json';
  }
  \<close>
  The test is on \<^verbatim>\<open>options.headers\<close> (an object, truthy whenever it is there); \<^verbatim>\<open>options.body\<close>
  is not read.
\<close>

definition set_content_type :: "RequestOptions \<Rightarrow> RequestOptions" where
  "set_content_type options =
     (if method options \<noteq> Some GET \<and> headers options \<noteq> None
      then options\<lparr> headers :=
             Some ((the (headers options))(CONTENT_TYPE \<mapsto>
               (if truthy_string (contentType options) then the (contentType options)
                else ''application/json''))) \<rparr>
      else options)"

text \<open>
  The loop over the three header names:
  \<^verbatim>\<open>
  for (const headerKey of ratelimitHeaders) {
    if (headers[headerKey]) this.ratelimitState[headerKey] = headers[headerKey];
  }
  \<close>
\<close>

definition ratelimitHeaders :: "string list" where
  "ratelimitHeaders = [RATELIMIT_LIMIT, RATELIMIT_REMAINING, RATELIMIT_RESET]"

fun track :: "(string \<rightharpoonup> string) \<Rightarrow> string list \<Rightarrow> (string \<rightharpoonup> string) \<Rightarrow> (string \<rightharpoonup> string)" where
  "track hs [] st = st"
| "track hs (headerKey # ks) st =
     track hs ks (if truthy_string (hs headerKey) then st(headerKey := hs headerKey) else st)"

text \<open>
  The switch on \<^verbatim>\<open>options.returnType\<close>, and the wrapping that follows it:
  \<^verbatim>\<open>
  case ReturnMethods.BODY: returnValue = await res.body(); break;
  case ReturnMethods.JSON: {
    let json;
    try { json = await res.json(); } catch { returnValue = await res.body(); }
    returnValue = json;
    break;
  }
  default: returnValue = res;
  \<close>
  In the JSON case the two variables are followed one assignment at a time: \<^verbatim>\<open>json\<close> starts
  as \<^verbatim>\<open>undefined\<close>, the \<^verbatim>\<open>try\<close> assigns one of the two, and the assignment after the \<^verbatim>\<open>try\<close>
  is made on both paths. No \<^verbatim>\<open>await res.body()\<close> is guarded: where it rejects, the call
  rejects with its exception, also inside the \<^verbatim>\<open>catch\<close>.
\<close>

definition decode_json :: "FapiResponse \<Rightarrow> exn + jsval" where
  "decode_json res =
     (let json0 = Undefined;
          returnValue0 = Undefined
      in case res_json res of
           Inr j \<Rightarrow>
             (let json1 = Json j; returnValue2 = json1 in Inr returnValue2)
         | Inl e \<Rightarrow>
             (case res_body res of
                Inl e1 \<Rightarrow> Inl e1
              | Inr b \<Rightarrow>
                  (let returnValue1 = Body b; returnValue2 = json0 in Inr returnValue2)))"

definition decode :: "RequestOptions \<Rightarrow> FapiResponse \<Rightarrow> exn + jsval" where
  "decode options res =
     (case (case returnType options of
              Some BODY \<Rightarrow>
                (case res_body res of Inl e \<Rightarrow> Inl e | Inr b \<Rightarrow> Inr (Body b))
            | Some JSON \<Rightarrow> decode_json res
            | None \<Rightarrow> Inr (Res res)) of
        Inl e \<Rightarrow> Inl e
      | Inr returnValue \<Rightarrow>
          if truthy_bool (returnHeaders options)
          then Inr (BodyHeaders returnValue (res_headers res))
          else Inr returnValue)"

text \<open>
  What a call does that can be seen from outside, in order: each call of \<^verbatim>\<open>this.emit\<close> with
  the object it passes, each call of a listener that \<^verbatim>\<open>emit\<close> makes with the content of the
  objects at that moment, and the one request handed to the transport.
\<close>

datatype payload =
    RequestPayload RequestOptions
  | RatelimitPayload RequestOptions FapiResponse number
  | ResponsePayload FapiResponse

datatype action = Emit Events payload | Notified Events payload | Send RequestOptions

definition ratelimit_payload :: "ratelimit_event \<Rightarrow> payload" where
  "ratelimit_payload ev = (case ev of (options, res, ratelimitReset) \<Rightarrow>
     RatelimitPayload options res ratelimitReset)"

text \<open>
  The actions of one \<^verbatim>\<open>this.emit(event, p)\<close>: the call itself, then the calls of the
  listeners as \<open>emit\<close> records them.
\<close>

definition emitting :: "Events \<Rightarrow> ('a \<Rightarrow> payload) \<Rightarrow> 'a callback list \<Rightarrow> 'a \<Rightarrow> action list" where
  "emitting event wrap ls p =
     Emit event (wrap p) # map (\<lambda>q. Notified event (wrap q)) (snd (emit ls p))"

text \<open>
  The result of a call: what the promise settles with (\<open>Inl\<close>: it rejects), the client
  after the call, and the actions of the call.
\<close>

record Dispatch =
  outcome :: "error + jsval"
  client_after :: Client
  actions :: "action list"

text \<open>
  The part of \<^verbatim>\<open>request\<close> after \<^verbatim>\<open>await this.restClient.request(options)\<close> has given the
  response \<open>res\<close>: the rate-limit state is updated, then status 429 is tested, then the
  \<^verbatim>\<open>response\<close> event is emitted, then the status is tested against 200, then the body is
  decoded. Whatever is read after an \<^verbatim>\<open>emit\<close> is read from the objects as the listeners left
  them; \<^verbatim>\<open>ratelimitReset\<close> is a local variable and stays what it was.
\<close>

definition on_response :: "Client \<Rightarrow> RequestOptions \<Rightarrow> FapiResponse \<Rightarrow> Dispatch" where
  "on_response c options res =
     (let c1 = c\<lparr> ratelimitState := track (res_headers res) ratelimitHeaders (ratelimitState c) \<rparr>
      in if statusCode res = 429 then
           (let parsed = parseInt (res_headers res RATELIMIT_RESET);
                ratelimitReset = (if isNaN parsed then Integer 0 else parsed);
                p = (options, res, ratelimitReset)
            in \<lparr> outcome =
                   (case fst (emit (listeners_ratelimit c) p) of
                      Inl e \<Rightarrow> Inl (Thrown e)
                    | Inr (options2, res2, n) \<Rightarrow>
                        Inl (new_RatelimitError ratelimitReset (res_request res2))),
                 client_after = c1,
                 actions = emitting Ratelimit ratelimit_payload (listeners_ratelimit c) p \<rparr>)
         else
           \<lparr> outcome =
               (case fst (emit (listeners_response c) res) of
                  Inl e \<Rightarrow> Inl (Thrown e)
                | Inr res2 \<Rightarrow>
                    if \<not> (statusCode res2 = 200)
                    then (case res_body res2 of
                            Inl e \<Rightarrow> Inl (Thrown e)
                          | Inr b \<Rightarrow>
                              Inl (FapiError (ToString_body b) (statusCode res2) (res_request res2)))
                    else (case decode options res2 of
                            Inl e \<Rightarrow> Inl (Thrown e)
                          | Inr returnValue \<Rightarrow> Inr returnValue)),
             client_after = c1,
             actions = emitting Response ResponsePayload (listeners_response c) res \<rparr>)"

text \<open>
  The whole call. \<open>send\<close> is the transport as the call meets it: what
  \<^verbatim>\<open>this.restClient.request(options)\<close> settles with for the descriptor it is given (\<open>Inl\<close>: it
  rejects, as on a network failure or a timeout). The descriptor it is given is the one
  the listeners of \<^verbatim>\<open>request\<close> left.
\<close>

definition request ::
    "(RequestOptions \<Rightarrow> exn + FapiResponse) \<Rightarrow> Client \<Rightarrow> RequestOptions \<Rightarrow> Dispatch" where
  "request send c options0 =
     (let options = set_content_type options0;
          acts = emitting Request RequestPayload (listeners_request c) options
      in case fst (emit (listeners_request c) options) of
           Inl e \<Rightarrow> \<lparr> outcome = Inl (Thrown e), client_after = c, actions = acts \<rparr>
         | Inr options1 \<Rightarrow>
             (case send options1 of
                Inl e \<Rightarrow>
                  \<lparr> outcome = Inl (Thrown e), client_after = c,
                    actions = acts @ [Send options1] \<rparr>
              | Inr res \<Rightarrow>
                  (let d = on_response c options1 res
                   in d\<lparr> actions := acts @ [Send options1] @ actions d \<rparr>)))"

subsection \<open>Calls in sequence, and what the statements below read off a call\<close>

text \<open>
  A transport that answers every request with the response \<open>res\<close>, and the client after a
  list of calls, each made on the client the call before it left.
\<close>

definition answering :: "FapiResponse \<Rightarrow> RequestOptions \<Rightarrow> exn + FapiResponse" where
  "answering res = (\<lambda>options. Inr res)"

fun requests ::
    "Client \<Rightarrow> ((RequestOptions \<Rightarrow> exn + FapiResponse) \<times> RequestOptions) list \<Rightarrow> Client" where
  "requests c [] = c"
| "requests c ((send, options) # calls) = requests (client_after (request send c options)) calls"

text \<open>
  A header counts as carried by a response when the loop of \<^verbatim>\<open>request\<close> would store it: it
  is there and its value is not the empty string. \<open>most_recent k rs before\<close> is the value
  of header \<open>k\<close> in the last response of \<open>rs\<close> that carried it, and \<open>before\<close> when none did.
\<close>

definition carried :: "string \<Rightarrow> FapiResponse \<Rightarrow> bool" where
  "carried k res = truthy_string (res_headers res k)"

definition most_recent :: "string \<Rightarrow> FapiResponse list \<Rightarrow> string option \<Rightarrow> string option" where
  "most_recent k rs before =
     (let fs = filter (carried k) rs
      in if fs = [] then before else res_headers (last fs) k)"

text \<open>
  The content-type header of a descriptor, and the client with the same fields and no
  listener.
\<close>

definition content_type_of :: "RequestOptions \<Rightarrow> string option" where
  "content_type_of options =
     (case headers options of None \<Rightarrow> None | Some h \<Rightarrow> h CONTENT_TYPE)"


text \<open>
  The inputs of the examples: a client made in a freshly loaded module with \<^verbatim>\<open>auth: 'key1'\<close>,
  a descriptor as \<^verbatim>\<open>getPaths\<close> builds it and one as \<^verbatim>\<open>fetchImage\<close> builds it, a response whose
  body is a text that is not JSON, a listener that throws, one that returns and leaves
  what it was handed as it was, and one that sets \<^verbatim>\<open>returnHeaders\<close> on the descriptor.
\<close>

definition example_client :: Client where
  "example_client =
     fst (Client_new ''https://fapi.example''
            \<lparr> opt_baseUrl = None, opt_auth = Some ''key1'', opt_timeout = None \<rparr>
            defaultSettings_initial)"

definition example_get :: "ReturnMethods \<Rightarrow> RequestOptions" where
  "example_get rt =
     \<lparr> method = Some GET, path = Some ''/pathlist'', headers = None, body = None,
       returnType = Some rt, contentType = None, returnHeaders = None \<rparr>"

definition example_post :: "string option \<Rightarrow> RequestOptions" where
  "example_post ct =
     \<lparr> method = Some POST, path = Some ''/keemstar'', headers = None,
       body = Some (JObject [(''images'', JArray [JString ''https://fapi.example/logo.png''])]),
       returnType = Some BODY, contentType = ct, returnHeaders = None \<rparr>"

definition example_response :: "int \<Rightarrow> (string \<rightharpoonup> string) \<Rightarrow> string \<Rightarrow> FapiResponse" where
  "example_response status hs b =
     \<lparr> statusCode = status, res_headers = hs, res_body = Inr (Text b),
       res_json = Inl (Exn ''SyntaxError''), res_request = ''GET /pathlist'' \<rparr>"

definition throwing :: "'a callback" where
  "throwing = (\<lambda>p. Inl (Exn ''listener failed''))"

definition returning :: "'a callback" where
  "returning = (\<lambda>p. Inr p)"

definition asking_for_headers :: "RequestOptions callback" where
  "asking_for_headers = (\<lambda>options. Inr (options\<lparr> returnHeaders := Some True \<rparr>))"

text \<open>
  What the statements below say of the listeners of an event: none of them ever throws;
  each of them returns and leaves what it was handed as it was; one of them throws \<open>e\<close>
  whatever it is handed, and those registered before it never throw.
\<close>

definition never_throw :: "'a callback list \<Rightarrow> bool" where
  "never_throw ls = (\<forall>k \<in> set ls. \<forall>q. \<exists>q1. k q = Inr q1)"

definition leave_unchanged :: "'a callback list \<Rightarrow> bool" where
  "leave_unchanged ls = (\<forall>k \<in> set ls. \<forall>q. k q = Inr q)"

definition throws_at :: "'a callback list \<Rightarrow> exn \<Rightarrow> bool" where
  "throws_at ls e =
     (\<exists>ls1 l ls2. ls = ls1 @ l # ls2 \<and> never_throw ls1 \<and> (\<forall>q. l q = Inl e))"

text \<open>The descriptors handed to the transport, in order.\<close>

fun sent :: "action list \<Rightarrow> RequestOptions list" where
  "sent [] = []"
| "sent (Send options # acts) = options # sent acts"
| "sent (Emit event p # acts) = sent acts"
| "sent (Notified event p # acts) = sent acts"

section \<open>Properties\<close>

subsection \<open>Unfolding\<close>

lemmas example_defs = example_client_def example_get_def example_post_def example_response_def
  throwing_def returning_def asking_for_headers_def answering_def Client_new_def make_auth_def
  truthy_string_def truthy_number_def truthy_bool_def startsWith_def defaultSettings_initial_def
  Let_def

lemmas header_defs = RATELIMIT_RESET_def RATELIMIT_LIMIT_def RATELIMIT_REMAINING_def
  CONTENT_TYPE_def ratelimitHeaders_def

lemmas parseInt_defs = parseInt_def ToString_def StrWhiteSpaceChar_def radix_digit_def digit_of_def
  round_to_double_def isNaN_def Let_def

lemmas request_defs = request_def on_response_def set_content_type_def decode_def decode_json_def
  emitting_def ratelimit_payload_def new_RatelimitError_def ratelimitStatusCode_def
  STATUS_CODES_429_def isNaN_def Let_def

subsection \<open>\<^verbatim>\<open>parseInt\<close> on some header values\<close>

text \<open>
  Below \<open>2^53\<close> the result is the integer of the leading digits; beyond, the nearest
  double, and an infinity beyond the largest double, which \<^verbatim>\<open>isNaN\<close> lets through.
\<close>

lemma round_to_double_exact: "n < 2 ^ 53 \<Longrightarrow> round_to_double n = Some n"
  by (simp add: round_to_double_def)

lemma parseInt_digits: "parseInt (Some ''17'') = Integer 17"
  by (simp add: parseInt_defs)

lemma parseInt_prefix: "parseInt (Some '' -17 seconds'') = Integer (- 17)"
  by (simp add: parseInt_defs)

lemma parseInt_hex: "parseInt (Some ''0x1F'') = Integer 31"
  by (simp add: parseInt_defs)

lemma parseInt_negative_zero: "parseInt (Some ''-0'') = NegZero"
  by (simp add: parseInt_defs)




lemma parseInt_overflows:
  "parseInt (Some ''9999999999999999999999999999999999999999999999999999999999999999999999999999999999999999999999999999999999999999999999999999999999999999999999999999999999999999999999999999999999999999999999999999999999999999999999999999999999999999999999999999999999999999999999999999999999999999999999999999999999999999999999'') = PosInfinity"
  by (simp add: parseInt_defs bits.simps)

subsection \<open>Listeners\<close>

text \<open>
  What \<open>emit\<close> gives for the three kinds of listener lists: listeners that never throw
  are all called and \<open>emit\<close> returns; listeners that leave what they are handed unchanged
  are all called with the same content; a listener that throws stops \<open>emit\<close> with its
  exception.
\<close>

lemma emit_never_throw:
  "never_throw ls \<Longrightarrow> \<exists>q. fst (emit ls p) = Inr q"
proof (induction ls arbitrary: p)
  case Nil
  show ?case by simp
next
  case (Cons l ls)
  from Cons.prems obtain p1 where l: "l p = Inr p1"
    unfolding never_throw_def by force
  from Cons.prems have "never_throw ls"
    unfolding never_throw_def by simp
  from Cons.IH [OF this, of p1] show ?case by (simp add: l)
qed

lemma emit_leave_unchanged:
  "leave_unchanged ls \<Longrightarrow> emit ls p = (Inr p, replicate (length ls) p)"
  by (induction ls) (simp_all add: leave_unchanged_def)

lemma emit_throws_at:
  assumes "throws_at ls e"
  shows "fst (emit ls p) = Inl e"
proof -
  from assms obtain ls1 l ls2 where ls: "ls = ls1 @ l # ls2"
    and quiet: "never_throw ls1" and l: "\<forall>q. l q = Inl e"
    unfolding throws_at_def by blast
  from quiet have "fst (emit (ls1 @ l # ls2) p) = Inl e"
  proof (induction ls1 arbitrary: p)
    case Nil
    show ?case by (simp add: l)
  next
    case (Cons k ks)
    from Cons.prems obtain p1 where k: "k p = Inr p1"
      unfolding never_throw_def by force
    from Cons.prems have "never_throw ks"
      unfolding never_throw_def by simp
    from Cons.IH [OF this, of p1] show ?case by (simp add: k)
  qed
  then show ?thesis by (simp add: ls)
qed

lemma emit_all_called:
  "fst (emit ls p) = Inr q \<Longrightarrow> length (snd (emit ls p)) = length ls"
  by (induction ls arbitrary: p) (auto split: sum.splits)

lemma emit_called:
  "never_throw ls \<Longrightarrow> length (snd (emit ls p)) = length ls"
  using emit_never_throw [of ls p] emit_all_called [of ls p] by blast


lemma example_client_listeners:
  "listeners_request example_client = []" "listeners_ratelimit example_client = []"
  "listeners_response example_client = []"
  by (simp_all add: example_client_def Client_new_def Let_def)

lemma never_throw_examples:
  "never_throw []" "never_throw [returning]" "never_throw [returning, returning]"
  "never_throw [asking_for_headers]"
  by (simp_all add: never_throw_def returning_def asking_for_headers_def)

lemma leave_unchanged_examples:
  "leave_unchanged []" "leave_unchanged [returning]" "leave_unchanged [returning, returning]"
  by (simp_all add: leave_unchanged_def returning_def)

subsection \<open>A call, part by part\<close>

text \<open>
  When the listeners of \<^verbatim>\<open>request\<close> return and the transport gives a response, the call is
  the part after the \<^verbatim>\<open>await\<close>, run on the descriptor as the listeners left it; when one of
  them throws, nothing is handed to the transport.
\<close>

lemma request_answered:
  assumes "fst (emit (listeners_request c) (set_content_type options)) = Inr options1"
    and "send options1 = Inr res"
  shows "request send c options =
    (on_response c options1 res)\<lparr> actions :=
      emitting Request RequestPayload (listeners_request c) (set_content_type options)
        @ [Send options1] @ actions (on_response c options1 res) \<rparr>"
  using assms by (simp add: request_def Let_def)

lemma request_listener_throws:
  assumes "fst (emit (listeners_request c) (set_content_type options)) = Inl e"
  shows "request send c options =
    \<lparr> outcome = Inl (Thrown e), client_after = c,
      actions = emitting Request RequestPayload (listeners_request c) (set_content_type options) \<rparr>"
  using assms by (simp add: request_def Let_def)

lemma sent_emitting: "sent (emitting event wrap ls p @ acts) = sent acts"
proof -
  have "sent (map (\<lambda>q. Notified event (wrap q)) qs @ acts) = sent acts" for qs
    by (induction qs) simp_all
  then show ?thesis by (simp add: emitting_def)
qed

lemma sent_emitting_only: "sent (emitting event wrap ls p) = []"
  using sent_emitting [of event wrap ls p "[]"] by simp

lemma on_response_sent: "sent (actions (on_response c options res)) = []"
  by (simp add: on_response_def Let_def sent_emitting_only)

lemma request_sent:
  assumes "fst (emit (listeners_request c) (set_content_type options)) = Inr options1"
  shows "sent (actions (request send c options)) = [options1]"
proof (cases "send options1")
  case (Inl e)
  with assms show ?thesis by (simp add: request_def Let_def sent_emitting)
next
  case (Inr res)
  show ?thesis
    by (simp add: request_answered [where send = send, OF assms Inr] sent_emitting
        on_response_sent)
qed



lemma track_lookup:
  "track hs ks st k = (if k \<in> set ks \<and> truthy_string (hs k) then hs k else st k)"
  by (induction ks arbitrary: st) auto

lemma on_response_state:
  "ratelimitState (client_after (on_response c options res)) =
     track (res_headers res) ratelimitHeaders (ratelimitState c)"
  by (simp add: on_response_def Let_def)

lemma on_response_listeners:
  "listeners_request (client_after (on_response c options res)) = listeners_request c"
  by (simp add: on_response_def Let_def)

lemma request_listeners:
  "listeners_request (client_after (request send c options)) = listeners_request c"
  by (simp add: request_def on_response_listeners Let_def split: sum.split)

lemma state_after_answer:
  assumes "fst (emit (listeners_request c) (set_content_type options)) = Inr options1"
    and "send options1 = Inr res"
  shows "ratelimitState (client_after (request send c options)) k =
     (if k \<in> set ratelimitHeaders \<and> carried k res then res_headers res k else ratelimitState c k)"
  using assms by (simp add: request_answered on_response_state track_lookup carried_def)

lemma most_recent_Cons:
  "most_recent k (r # rs) before =
     most_recent k rs (if carried k r then res_headers r k else before)"
  by (simp add: most_recent_def Let_def)

lemma requests_state:
  assumes "\<forall>p. \<exists>q. fst (emit (listeners_request c) p) = Inr q" and "k \<in> set ratelimitHeaders"
  shows "ratelimitState (requests c (map (\<lambda>(res, options). (answering res, options)) xs)) k =
           most_recent k (map fst xs) (ratelimitState c k)"
  using assms
proof (induction xs arbitrary: c)
  case Nil
  show ?case by (simp add: most_recent_def)
next
  case (Cons x xs)
  obtain res options where x: "x = (res, options)" by (cases x)
  let ?c = "client_after (request (answering res) c options)"
  from Cons.prems(1) obtain options1
    where sure: "fst (emit (listeners_request c) (set_content_type options)) = Inr options1"
    by blast
  have quiet: "\<forall>p. \<exists>q. fst (emit (listeners_request ?c) p) = Inr q"
    using Cons.prems(1) by (simp add: request_listeners)
  have step: "ratelimitState ?c k = (if carried k res then res_headers res k else ratelimitState c k)"
    using Cons.prems(2) state_after_answer [OF sure, of "answering res" res k]
    by (simp add: answering_def)
  show ?case
    using Cons.IH [OF quiet Cons.prems(2)] by (simp add: x most_recent_Cons step)
qed


subsection \<open>Decoding\<close>

text \<open>
  C1. The claim: a response with status 200 whose body is not valid JSON, asked for as
  parsed JSON, makes the call succeed with the raw body. The code assigns the raw body in
  the \<^verbatim>\<open>catch\<close> and then overwrites it with \<^verbatim>\<open>json\<close>, which was never assigned: on a client
  with no listener, for the descriptor of \<^verbatim>\<open>getPaths\<close> and any response with status 200
  whose \<^verbatim>\<open>json()\<close> rejects, the call succeeds with \<^verbatim>\<open>undefined\<close>, whatever \<^verbatim>\<open>body()\<close> resolves
  to; and where \<^verbatim>\<open>body()\<close> rejects too, the call rejects with its exception. In neither case
  does the call return the raw body.
\<close>

theorem json_parse_failure_gives_undefined:
  "outcome (request
      (answering \<lparr> statusCode = 200, res_headers = hs, res_body = Inr b, res_json = Inl e,
                   res_request = r \<rparr>)
      example_client (example_get JSON)) = Inr Undefined
   \<and> outcome (request
      (answering \<lparr> statusCode = 200, res_headers = hs, res_body = Inl e1, res_json = Inl e,
                   res_request = r \<rparr>)
      example_client (example_get JSON)) = Inl (Thrown e1)"
  by (simp add: request_defs example_defs)

subsection \<open>Error classification\<close>







subsection \<open>The rate-limit state\<close>

text \<open>
  C4, as amended. For every call that gets a response, whatever its status (200, 429 or
  another) and before the listeners of \<^verbatim>\<open>response\<close> and \<^verbatim>\<open>ratelimit\<close> are called (so whatever
  they do to the objects they are handed), each of the three
  fields of the rate-limit state is overwritten with the value of its header exactly when
  the response carries that header with a value that is not empty, and is left as it was
  (unset, if it was unset) when the header is absent or empty; no other field is written.
  After a sequence of answered calls a field holds the value of the most recent response
  that carried its header with a value that is not empty, and what it held before the
  sequence when no response did.
\<close>

theorem ratelimit_state_tracking:
  "(fst (emit (listeners_request c) (set_content_type options)) = Inr options1
      \<and> send options1 = Inr res
    \<longrightarrow> (\<forall>k. ratelimitState (client_after (request send c options)) k =
           (if k \<in> set ratelimitHeaders \<and> truthy_string (res_headers res k)
            then res_headers res k else ratelimitState c k)))
   \<and> ((\<forall>p. \<exists>q. fst (emit (listeners_request c) p) = Inr q) \<and> h \<in> set ratelimitHeaders
    \<longrightarrow> ratelimitState (requests c (map (\<lambda>(res, options). (answering res, options)) xs)) h =
          most_recent h (map fst xs) (ratelimitState c h))"
  using state_after_answer [of c options options1 send res] requests_state [of c h xs]
  by (simp add: carried_def)

text \<open>
  The theorem on three calls in a row, the first two answered without the
  \<^verbatim>\<open>x-rate-limit-remaining\<close> header (the second with status 429) and the third with it: the
  field is unset after the first call and after the second, and holds the header's value
  after the third.
\<close>

theorem ratelimit_state_tracking_witness:
  "ratelimitState (requests example_client
      [(answering (example_response 200 [RATELIMIT_LIMIT \<mapsto> ''60''] ''a''), example_get BODY)])
      RATELIMIT_REMAINING = None
   \<and> ratelimitState (requests example_client
      [(answering (example_response 200 [RATELIMIT_LIMIT \<mapsto> ''60''] ''a''), example_get BODY),
       (answering (example_response 429 [RATELIMIT_RESET \<mapsto> ''17''] ''b''), example_get BODY)])
      RATELIMIT_REMAINING = None
   \<and> ratelimitState (requests example_client
      [(answering (example_response 200 [RATELIMIT_LIMIT \<mapsto> ''60''] ''a''), example_get BODY),
       (answering (example_response 429 [RATELIMIT_RESET \<mapsto> ''17''] ''b''), example_get BODY),
       (answering (example_response 500 [RATELIMIT_REMAINING \<mapsto> ''0''] ''c''), example_get BODY)])
      RATELIMIT_REMAINING = Some ''0''
   \<and> ratelimitState (client_after (request
        (answering (example_response 429 [RATELIMIT_RESET \<mapsto> ''17''] ''b''))
        example_client (example_get BODY))) RATELIMIT_RESET = Some ''17''"
  using
    ratelimit_state_tracking [of example_client "example_get BODY" "example_get BODY"
      "answering (example_response 429 [RATELIMIT_RESET \<mapsto> ''17''] ''b'')"
      "example_response 429 [RATELIMIT_RESET \<mapsto> ''17''] ''b''" RATELIMIT_REMAINING
      "[(example_response 200 [RATELIMIT_LIMIT \<mapsto> ''60''] ''a'', example_get BODY)]"]
    ratelimit_state_tracking [of example_client "example_get BODY" "example_get BODY"
      "answering (example_response 429 [RATELIMIT_RESET \<mapsto> ''17''] ''b'')"
      "example_response 429 [RATELIMIT_RESET \<mapsto> ''17''] ''b''" RATELIMIT_REMAINING
      "[(example_response 200 [RATELIMIT_LIMIT \<mapsto> ''60''] ''a'', example_get BODY),
        (example_response 429 [RATELIMIT_RESET \<mapsto> ''17''] ''b'', example_get BODY)]"]
    ratelimit_state_tracking [of example_client "example_get BODY" "example_get BODY"
      "answering (example_response 429 [RATELIMIT_RESET \<mapsto> ''17''] ''b'')"
      "example_response 429 [RATELIMIT_RESET \<mapsto> ''17''] ''b''" RATELIMIT_REMAINING
      "[(example_response 200 [RATELIMIT_LIMIT \<mapsto> ''60''] ''a'', example_get BODY),
        (example_response 429 [RATELIMIT_RESET \<mapsto> ''17''] ''b'', example_get BODY),
        (example_response 500 [RATELIMIT_REMAINING \<mapsto> ''0''] ''c'', example_get BODY)]"]
  by (simp add: example_defs set_content_type_def header_defs most_recent_def carried_def)

text \<open>
  The claim as it was stated, overwritten exactly when the header is present, fails on a
  header that is present with an empty value: the loop tests \<^verbatim>\<open>headers[headerKey]\<close> for
  truthiness, the empty string is falsy, and the field keeps the value of the call before.
\<close>

theorem ratelimit_state_counterexample:
  "res_headers (example_response 200 [RATELIMIT_REMAINING \<mapsto> []] ''b'') RATELIMIT_REMAINING
     = Some []
   \<and> ratelimitState (requests example_client
      [(answering (example_response 200 [RATELIMIT_REMAINING \<mapsto> ''5''] ''a''), example_get BODY),
       (answering (example_response 200 [RATELIMIT_REMAINING \<mapsto> []] ''b''), example_get BODY)])
      RATELIMIT_REMAINING = Some ''5''"
  by (simp add: request_defs example_defs header_defs)

subsection \<open>The content type\<close>

text \<open>
  C5, as amended. For every request descriptor whose method is not GET and which has a
  \<^verbatim>\<open>headers\<close> object, whether it has a body or not, the dispatcher sets \<^verbatim>\<open>content-type\<close> in
  these headers to the declared content type, or to \<^verbatim>\<open>application/json\<close> when none, or an
  empty one, is declared, and changes nothing else. Every other descriptor (the method is
  GET, or there is no \<^verbatim>\<open>headers\<close> object) is left exactly as it came, body or not. The
  descriptor is then passed to the listeners of \<^verbatim>\<open>request\<close>, and what they leave of it is
  the one descriptor handed to the transport: the descriptor as the dispatcher prepared
  it when the listeners leave it as it is.
\<close>

theorem content_type_set_on_headers:
  "(method options \<noteq> Some GET \<and> headers options = Some h \<longrightarrow>
      set_content_type options =
        options\<lparr> headers := Some (h(CONTENT_TYPE \<mapsto>
          (if truthy_string (contentType options) then the (contentType options)
           else ''application/json''))) \<rparr>)
   \<and> (method options = Some GET \<or> headers options = None \<longrightarrow>
      set_content_type options = options)
   \<and> (leave_unchanged (listeners_request c) \<longrightarrow>
      sent (actions (request send c options)) = [set_content_type options])
   \<and> (\<forall>options1. fst (emit (listeners_request c) (set_content_type options)) = Inr options1 \<longrightarrow>
      sent (actions (request send c options)) = [options1])"
proof -
  have unchanged: "leave_unchanged (listeners_request c) \<Longrightarrow>
      fst (emit (listeners_request c) (set_content_type options)) = Inr (set_content_type options)"
    by (simp add: emit_leave_unchanged)
  show ?thesis
    using unchanged request_sent [of c options _ send]
    by (auto simp add: set_content_type_def)
qed

theorem content_type_set_on_headers_witness:
  "content_type_of (set_content_type
      ((example_post None)\<lparr> headers := Some [''accept'' \<mapsto> ''image/png''] \<rparr>))
     = Some ''application/json''
   \<and> content_type_of (set_content_type
       ((example_post (Some ''text/plain''))\<lparr> headers := Some Map.empty, body := None \<rparr>))
     = Some ''text/plain''
   \<and> set_content_type (example_post (Some ''text/plain'')) = example_post (Some ''text/plain'')
   \<and> set_content_type ((example_get BODY)\<lparr> headers := Some Map.empty \<rparr>)
       = (example_get BODY)\<lparr> headers := Some Map.empty \<rparr>
   \<and> sent (actions (request (answering (example_response 200 Map.empty ''PNG''))
        (on_event example_client (RequestListener returning)) (example_post (Some ''text/plain''))))
       = [example_post (Some ''text/plain'')]"
proof -
  let ?c = "on_event example_client (RequestListener returning)"
  have quiet: "leave_unchanged (listeners_request ?c)"
    by (simp add: example_client_listeners leave_unchanged_examples)
  have m: "method (example_post ct) \<noteq> Some GET" "headers (example_post ct) = None"
    "method (example_get rt) = Some GET" for ct rt
    by (simp_all add: example_post_def example_get_def)
  show ?thesis
    using
      content_type_set_on_headers [of
        "(example_post None)\<lparr> headers := Some [''accept'' \<mapsto> ''image/png''] \<rparr>"
        "[''accept'' \<mapsto> ''image/png'']" ?c]
      content_type_set_on_headers [of
        "(example_post (Some ''text/plain''))\<lparr> headers := Some Map.empty, body := None \<rparr>"
        "Map.empty" ?c]
      content_type_set_on_headers [of "example_post (Some ''text/plain'')" "Map.empty" ?c
        "answering (example_response 200 Map.empty ''PNG'')"]
      content_type_set_on_headers [of "(example_get BODY)\<lparr> headers := Some Map.empty \<rparr>"
        "Map.empty" ?c]
      quiet m
    by (simp add: content_type_of_def truthy_string_def example_post_def)
qed

text \<open>
  The claim as it was stated, for a method other than GET and a body present, fails on
  the descriptor \<^verbatim>\<open>fetchImage\<close> builds (POST, a body, no \<^verbatim>\<open>headers\<close> property) with a declared
  content type: the test is on \<^verbatim>\<open>options.headers\<close>, and the descriptor is handed to the
  transport as it came, with no content type set.
\<close>

theorem content_type_counterexample:
  "method (example_post (Some ''text/plain'')) \<noteq> Some GET
   \<and> body (example_post (Some ''text/plain'')) \<noteq> None
   \<and> sent (actions (request (answering (example_response 200 Map.empty ''PNG'')) example_client
        (example_post (Some ''text/plain''))))
       = [example_post (Some ''text/plain'')]
   \<and> content_type_of (example_post (Some ''text/plain'')) = None"
  by (simp add: request_defs example_defs content_type_of_def)

subsection \<open>The events\<close>

text \<open>
  C6. Every call emits the \<^verbatim>\<open>request\<close> event first: its actions begin with the call of
  \<^verbatim>\<open>emit\<close> and the calls of the listeners of \<^verbatim>\<open>request\<close> that \<^verbatim>\<open>emit\<close> makes, before anything
  is handed to the transport, and nothing is handed to it when one of them throws. When
  the response arrives (the listeners of \<^verbatim>\<open>request\<close> returned and the transport answered),
  the call has notified the listeners of \<^verbatim>\<open>request\<close>, then handed the descriptor to the
  transport, then emitted exactly one more event and notified its listeners, and no
  others: \<^verbatim>\<open>ratelimit\<close> when the status is 429, and \<^verbatim>\<open>response\<close> for every other status, 200
  or not. The listeners of an event that never throw are each called once; those that
  leave the object as it is are each called with the same object.
\<close>

theorem request_notifications:
  "(\<exists>rest. actions (request send c options) =
       Emit Request (RequestPayload (set_content_type options))
       # map (\<lambda>q. Notified Request (RequestPayload q))
           (snd (emit (listeners_request c) (set_content_type options)))
       @ rest)
   \<and> (\<forall>options1 res.
        fst (emit (listeners_request c) (set_content_type options)) = Inr options1
        \<and> send options1 = Inr res
      \<longrightarrow> actions (request send c options) =
            Emit Request (RequestPayload (set_content_type options))
            # map (\<lambda>q. Notified Request (RequestPayload q))
                (snd (emit (listeners_request c) (set_content_type options)))
            @ [Send options1]
            @ (if statusCode res = 429
               then Emit Ratelimit (RatelimitPayload options1 res
                      (if isNaN (parseInt (res_headers res RATELIMIT_RESET)) then Integer 0
                       else parseInt (res_headers res RATELIMIT_RESET)))
                    # map (\<lambda>q. Notified Ratelimit (ratelimit_payload q))
                        (snd (emit (listeners_ratelimit c) (options1, res,
                           (if isNaN (parseInt (res_headers res RATELIMIT_RESET)) then Integer 0
                            else parseInt (res_headers res RATELIMIT_RESET)))))
               else Emit Response (ResponsePayload res)
                    # map (\<lambda>q. Notified Response (ResponsePayload q))
                        (snd (emit (listeners_response c) res))))
   \<and> (\<forall>p. never_throw (listeners_request c) \<longrightarrow>
          length (snd (emit (listeners_request c) p)) = length (listeners_request c))
   \<and> (\<forall>p. never_throw (listeners_ratelimit c) \<longrightarrow>
          length (snd (emit (listeners_ratelimit c) p)) = length (listeners_ratelimit c))
   \<and> (\<forall>p. never_throw (listeners_response c) \<longrightarrow>
          length (snd (emit (listeners_response c) p)) = length (listeners_response c))
   \<and> (\<forall>p. leave_unchanged (listeners_request c) \<longrightarrow>
          emit (listeners_request c) p = (Inr p, replicate (length (listeners_request c)) p))
   \<and> (\<forall>e. throws_at (listeners_request c) e \<longrightarrow> sent (actions (request send c options)) = [])"
proof -
  have first: "\<exists>rest. actions (request send c options) =
       Emit Request (RequestPayload (set_content_type options))
       # map (\<lambda>q. Notified Request (RequestPayload q))
           (snd (emit (listeners_request c) (set_content_type options)))
       @ rest"
    by (simp add: request_def emitting_def Let_def split: sum.split)
  have answered: "\<forall>options1 res.
        fst (emit (listeners_request c) (set_content_type options)) = Inr options1
        \<and> send options1 = Inr res
      \<longrightarrow> actions (request send c options) =
            Emit Request (RequestPayload (set_content_type options))
            # map (\<lambda>q. Notified Request (RequestPayload q))
                (snd (emit (listeners_request c) (set_content_type options)))
            @ [Send options1]
            @ (if statusCode res = 429
               then Emit Ratelimit (RatelimitPayload options1 res
                      (if isNaN (parseInt (res_headers res RATELIMIT_RESET)) then Integer 0
                       else parseInt (res_headers res RATELIMIT_RESET)))
                    # map (\<lambda>q. Notified Ratelimit (ratelimit_payload q))
                        (snd (emit (listeners_ratelimit c) (options1, res,
                           (if isNaN (parseInt (res_headers res RATELIMIT_RESET)) then Integer 0
                            else parseInt (res_headers res RATELIMIT_RESET)))))
               else Emit Response (ResponsePayload res)
                    # map (\<lambda>q. Notified Response (ResponsePayload q))
                        (snd (emit (listeners_response c) res)))"
    by (simp add: request_def on_response_def emitting_def ratelimit_payload_def Let_def)
  have called_request: "\<forall>p. never_throw (listeners_request c) \<longrightarrow>
          length (snd (emit (listeners_request c) p)) = length (listeners_request c)"
    by (simp add: emit_called)
  have called_ratelimit: "\<forall>p. never_throw (listeners_ratelimit c) \<longrightarrow>
          length (snd (emit (listeners_ratelimit c) p)) = length (listeners_ratelimit c)"
    by (simp add: emit_called)
  have called_response: "\<forall>p. never_throw (listeners_response c) \<longrightarrow>
          length (snd (emit (listeners_response c) p)) = length (listeners_response c)"
    by (simp add: emit_called)
  have unchanged: "\<forall>p. leave_unchanged (listeners_request c) \<longrightarrow>
          emit (listeners_request c) p = (Inr p, replicate (length (listeners_request c)) p)"
    by (simp add: emit_leave_unchanged)
  have nothing_sent: "\<forall>e. throws_at (listeners_request c) e \<longrightarrow>
      sent (actions (request send c options)) = []"
    by (simp add: request_listener_throws emit_throws_at sent_emitting_only)
  from first answered called_request called_ratelimit called_response unchanged nothing_sent
  show ?thesis
    by (intro conjI)
qed

text \<open>
  The theorem on a client with two listeners of \<^verbatim>\<open>request\<close> and one of \<^verbatim>\<open>ratelimit\<close> at
  status 429, on a client with a listener of each of \<^verbatim>\<open>ratelimit\<close> and \<^verbatim>\<open>response\<close> at status
  500, and on a client whose first listener of \<^verbatim>\<open>request\<close> throws.
\<close>

theorem request_notifications_witness:
  "actions (request (answering (example_response 429 [RATELIMIT_RESET \<mapsto> ''17''] ''b''))
      (on_event (on_event (on_event example_client (RequestListener returning))
         (RequestListener returning)) (RatelimitListener returning))
      (example_get BODY))
     = [Emit Request (RequestPayload (example_get BODY)),
        Notified Request (RequestPayload (example_get BODY)),
        Notified Request (RequestPayload (example_get BODY)),
        Send (example_get BODY),
        Emit Ratelimit (RatelimitPayload (example_get BODY)
          (example_response 429 [RATELIMIT_RESET \<mapsto> ''17''] ''b'') (Integer 17)),
        Notified Ratelimit (RatelimitPayload (example_get BODY)
          (example_response 429 [RATELIMIT_RESET \<mapsto> ''17''] ''b'') (Integer 17))]
   \<and> actions (request (answering (example_response 500 Map.empty ''internal error''))
      (on_event (on_event example_client (RatelimitListener returning))
         (ResponseListener returning))
      (example_get BODY))
     = [Emit Request (RequestPayload (example_get BODY)), Send (example_get BODY),
        Emit Response (ResponsePayload (example_response 500 Map.empty ''internal error'')),
        Notified Response (ResponsePayload (example_response 500 Map.empty ''internal error''))]
   \<and> actions (request (answering (example_response 200 Map.empty ''PNG''))
      (on_event (on_event example_client (RequestListener throwing)) (RequestListener returning))
      (example_get BODY))
     = [Emit Request (RequestPayload (example_get BODY)),
        Notified Request (RequestPayload (example_get BODY))]"
proof -
  let ?c = "on_event (on_event (on_event example_client (RequestListener returning))
         (RequestListener returning)) (RatelimitListener returning)"
  let ?d = "on_event (on_event example_client (RatelimitListener returning))
         (ResponseListener returning)"
  let ?e = "on_event (on_event example_client (RequestListener throwing))
         (RequestListener returning)"
  let ?o = "example_get BODY"
  have o: "set_content_type ?o = ?o"
    by (simp add: set_content_type_def example_get_def)
  have quiet: "leave_unchanged (listeners_request ?c)" "leave_unchanged (listeners_request ?d)"
    "leave_unchanged (listeners_ratelimit ?c)" "leave_unchanged (listeners_response ?d)"
    by (simp_all add: example_client_listeners leave_unchanged_examples)
  have answers: "answering r ?o = Inr r" for r
    by (simp add: answering_def)
  have thrown: "emit (listeners_request ?e) ?o = (Inl (Exn ''listener failed''), [?o])"
    by (simp add: example_client_listeners throwing_def)
  show ?thesis
    using
      request_notifications [of "answering (example_response 429 [RATELIMIT_RESET \<mapsto> ''17''] ''b'')"
        ?c ?o]
      request_notifications [of "answering (example_response 500 Map.empty ''internal error'')"
        ?d ?o]
      request_notifications [of "answering (example_response 200 Map.empty ''PNG'')" ?e ?o]
      request_listener_throws [of ?e ?o "Exn ''listener failed''"
        "answering (example_response 200 Map.empty ''PNG'')"]
      quiet thrown
    by (simp add: o answers example_client_listeners returning_def emitting_def
        ratelimit_payload_def example_response_def parseInt_digits isNaN_def RATELIMIT_RESET_def)
qed




text \<open>
  A listener that returns can alter the result as well, by writing into the descriptor it
  is handed: one that sets \<^verbatim>\<open>returnHeaders\<close> makes the call return the body wrapped with the
  headers.
\<close>

lemma returning_listener_can_alter:
  "never_throw [asking_for_headers]
   \<and> outcome (request (answering (example_response 200 Map.empty ''PNG''))
        (on_event example_client (RequestListener asking_for_headers)) (example_get BODY))
       = Inr (BodyHeaders (Body (Text ''PNG'')) Map.empty)
   \<and> outcome (request (answering (example_response 200 Map.empty ''PNG''))
        example_client (example_get BODY))
       = Inr (Body (Text ''PNG''))"
  using never_throw_examples(4) by (simp add: request_defs example_defs)

subsection \<open>The constructor\<close>

text \<open>
  In a freshly loaded module, a client made without a \<^verbatim>\<open>timeout\<close> option has the timeout
  15000, and one made with a \<^verbatim>\<open>timeout\<close> option has that timeout.
\<close>

lemma timeout_in_fresh_module:
  "get_timeout (fst (Client_new b \<lparr> opt_baseUrl = u, opt_auth = a, opt_timeout = None \<rparr>
      defaultSettings_initial)) = Some 15000"
  "t \<noteq> 0 \<Longrightarrow>
   get_timeout (fst (Client_new b \<lparr> opt_baseUrl = u, opt_auth = a, opt_timeout = Some t \<rparr>
      defaultSettings_initial)) = Some t"
  by (simp_all add: get_timeout_def Client_new_def defaultSettings_initial_def truthy_number_def
      Let_def)

text \<open>
  C7. The claim: every client made without a \<^verbatim>\<open>timeout\<close> option has the timeout 15000,
  whatever options earlier clients were made with. The constructor writes a given
  \<^verbatim>\<open>timeout\<close> into the module's \<^verbatim>\<open>defaultSettings\<close> object itself, so the next client made
  without the option starts from that value: after \<^verbatim>\<open>new Client({timeout: 5000})\<close>, a client
  made by \<^verbatim>\<open>new Client({})\<close> has the timeout 5000.
\<close>

theorem default_timeout_overwritten:
  "get_timeout
     (fst (Client_new b \<lparr> opt_baseUrl = None, opt_auth = None, opt_timeout = None \<rparr>
        (snd (Client_new b \<lparr> opt_baseUrl = None, opt_auth = None, opt_timeout = Some 5000 \<rparr>
           defaultSettings_initial))))
     = Some 5000"
  by (simp add: get_timeout_def Client_new_def defaultSettings_initial_def truthy_number_def
      Let_def)

text \<open>
  C8. A client made with an auth token that does not begin with the scheme \<^verbatim>\<open>Bearer\<close>
  sends the token with \<^verbatim>\<open>Bearer\<close> and a space put before it as its Authorization header; a
  client made with a token that begins with \<^verbatim>\<open>Bearer\<close> sends the token as it is. (A token
  has at least one character.)
\<close>

theorem authorization_bearer_prefix:
  "(t \<noteq> [] \<and> \<not> startsWith t ''Bearer''
      \<longrightarrow> Authorization (fst (Client_new b (opts\<lparr> opt_auth := Some t \<rparr>) ds)) = ''Bearer '' @ t)
   \<and> (startsWith t ''Bearer''
      \<longrightarrow> Authorization (fst (Client_new b (opts\<lparr> opt_auth := Some t \<rparr>) ds)) = t)"
  by (auto simp add: Authorization_def Client_new_def make_auth_def truthy_string_def
      startsWith_def Let_def)

theorem authorization_bearer_prefix_witness:
  "Authorization (fst (Client_new ''https://fapi.example''
      \<lparr> opt_baseUrl = None, opt_auth = Some ''abc123'', opt_timeout = None \<rparr>
      defaultSettings_initial)) = ''Bearer abc123''
   \<and> Authorization (fst (Client_new ''https://fapi.example''
      \<lparr> opt_baseUrl = None, opt_auth = Some ''Bearer abc123'', opt_timeout = None \<rparr>
      defaultSettings_initial)) = ''Bearer abc123''"
  using
    authorization_bearer_prefix [of "''abc123''" "''https://fapi.example''"
      "\<lparr> opt_baseUrl = None, opt_auth = None, opt_timeout = None \<rparr>" defaultSettings_initial]
    authorization_bearer_prefix [of "''Bearer abc123''" "''https://fapi.example''"
      "\<lparr> opt_baseUrl = None, opt_auth = None, opt_timeout = None \<rparr>" defaultSettings_initial]
  by (simp add: startsWith_def)

lemma startsWith_Bearer: "startsWith t ''Bearer'' = (take 6 t = ''Bearer'')"
  by (simp add: startsWith_def eval_nat_numeral)

text \<open>
  C10. The constructor recognises the scheme by the first six characters of the token
  alone, which must be exactly \<^verbatim>\<open>Bearer\<close>: every token that begins with them, a space after
  them or not, is the Authorization header as it is; every other token, a lower-case
  \<^verbatim>\<open>bearer\<close> among them, gets \<^verbatim>\<open>Bearer\<close> and a space put before it; and a client made with no
  auth option (or with the empty string, which the constructor takes for none) sends the
  empty string as its Authorization header.
\<close>

theorem bearer_recognised_by_six_characters:
  "(take 6 t = ''Bearer''
      \<longrightarrow> Authorization (fst (Client_new b (opts\<lparr> opt_auth := Some t \<rparr>) ds)) = t)
   \<and> (t \<noteq> [] \<and> take 6 t \<noteq> ''Bearer''
      \<longrightarrow> Authorization (fst (Client_new b (opts\<lparr> opt_auth := Some t \<rparr>) ds)) = ''Bearer '' @ t)
   \<and> Authorization (fst (Client_new b (opts\<lparr> opt_auth := None \<rparr>) ds)) = []
   \<and> Authorization (fst (Client_new b (opts\<lparr> opt_auth := Some [] \<rparr>) ds)) = []"
  by (simp add: Authorization_def Client_new_def make_auth_def truthy_string_def
      startsWith_Bearer Let_def)

theorem bearer_recognised_by_six_characters_witness:
  "Authorization (fst (Client_new ''https://fapi.example''
      \<lparr> opt_baseUrl = None, opt_auth = Some ''Bearerabc123'', opt_timeout = None \<rparr>
      defaultSettings_initial)) = ''Bearerabc123''
   \<and> Authorization (fst (Client_new ''https://fapi.example''
      \<lparr> opt_baseUrl = None, opt_auth = Some ''bearer abc123'', opt_timeout = None \<rparr>
      defaultSettings_initial)) = ''Bearer bearer abc123''"
  using
    bearer_recognised_by_six_characters [of "''Bearerabc123''" "''https://fapi.example''"
      "\<lparr> opt_baseUrl = None, opt_auth = None, opt_timeout = None \<rparr>" defaultSettings_initial]
    bearer_recognised_by_six_characters [of "''bearer abc123''" "''https://fapi.example''"
      "\<lparr> opt_baseUrl = None, opt_auth = None, opt_timeout = None \<rparr>" defaultSettings_initial]
  by simp

end
